theory Spec2Isabelle
  imports Main "HOL-Library.Multiset" "HOL-Library.List_Lexorder" "HOL-Library.Char_ord"
begin

section \<open>copyfighter: wide structs passed by value\<close>

text \<open>
  The program (\<^verbatim>\<open>main.go\<close>) type checks a Go package, collects the named types whose
  size is above a threshold (\<^verbatim>\<open>wideStructs\<close>), scans every function signature for
  receivers, parameters and results of such a type (\<^verbatim>\<open>findCopySites\<close>) and prints one
  line per offending function (\<^verbatim>\<open>printSites\<close>).

  The parts of the Go standard library the program calls (\<^verbatim>\<open>go/types\<close>, \<^verbatim>\<open>go/parser\<close>,
  \<^verbatim>\<open>os\<close>, \<^verbatim>\<open>sort\<close>) are not part of the repository. Their results are inputs of the
  model: the objects of \<^verbatim>\<open>info.Defs\<close>, the size function \<^verbatim>\<open>sizes.Sizeof\<close>, the
  outcome of \<^verbatim>\<open>os.Stat\<close> and of the parsers, and the function \<^verbatim>\<open>sort.Sort\<close>.
\<close>

subsection \<open>Data model\<close>

text \<open>
  \<^verbatim>\<open>types.Type\<close>. The program only asks whether a type is a \<^verbatim>\<open>*types.Named\<close> and, if
  so, for the id of its object. \<open>Basic s a\<close> is a primitive type of size \<open>s\<close> and
  alignment \<open>a\<close>, \<open>Struct fs\<close> an anonymous struct with the field types \<open>fs\<close>, and
  \<open>Named i u\<close> a named type whose object has \<^verbatim>\<open>Id()\<close> \<open>i\<close> and whose underlying type is
  \<open>u\<close>.
\<close>

datatype gotype =
    Basic int int
  | Pointer gotype
  | Slice gotype
  | Struct "gotype list"
  | Named string gotype

text \<open>\<^verbatim>\<open>*types.Var\<close>: a receiver, parameter or result, with \<^verbatim>\<open>Name()\<close> and \<^verbatim>\<open>Type()\<close>.\<close>

record var =
  var_name :: string
  var_type :: gotype

text \<open>\<^verbatim>\<open>*types.Signature\<close>: \<^verbatim>\<open>Recv()\<close> is nil for a plain function.\<close>

record signature =
  recv :: "var option"
  params :: "var list"
  results :: "var list"

text \<open>
  What the program reads from the position of a function: \<open>file_name\<close> is
  \<^verbatim>\<open>fset.File(pos).Name()\<close>, and \<open>filename\<close>, \<open>line\<close>, \<open>column\<close> are the fields of
  \<^verbatim>\<open>fset.Position(pos)\<close>.
\<close>

record position =
  file_name :: string
  filename :: string
  line :: int
  column :: int

text \<open>\<^verbatim>\<open>*types.Func\<close>: its signature, its position and its \<^verbatim>\<open>String()\<close>.\<close>

record func =
  func_sig :: signature
  func_pos :: position
  func_string :: string

text \<open>
  An object of \<^verbatim>\<open>info.Defs\<close>: a \<^verbatim>\<open>*types.TypeName\<close> with its \<^verbatim>\<open>Id()\<close> and \<^verbatim>\<open>Type()\<close>, a
  \<^verbatim>\<open>*types.Func\<close>, or anything else (variables, constants, nil).
\<close>

datatype object =
    TypeName string gotype
  | Func func
  | OtherObject

record copySite =
  cs_fun :: func
  shouldBe :: "string list"

subsection \<open>isWideStructTyped\<close>

text \<open>
  \<^verbatim>\<open>wideStructs\<close> is a \<^verbatim>\<open>map[string]bool\<close>; reading a key that is absent gives false.
\<close>

definition lookup :: "(string \<rightharpoonup> bool) \<Rightarrow> string \<Rightarrow> bool" where
  "lookup m k = (case m k of None \<Rightarrow> False | Some b \<Rightarrow> b)"

fun isWideStructTyped :: "gotype \<Rightarrow> (string \<rightharpoonup> bool) \<Rightarrow> bool" where
  "isWideStructTyped (Named i u) wideStructs = lookup wideStructs i"
| "isWideStructTyped t wideStructs = False"

subsection \<open>sentence\<close>

text \<open>\<^verbatim>\<open>strings.Join\<close> of the Go standard library.\<close>

fun Join :: "string list \<Rightarrow> string \<Rightarrow> string" where
  "Join [] sep = []"
| "Join [x] sep = x"
| "Join (x # y # ys) sep = x @ sep @ Join (y # ys) sep"

definition sentence :: "string list \<Rightarrow> string" where
  "sentence parts =
     (if length parts = 0 then []
      else if length parts = 1 then parts ! 0
      else (let last = length parts - 1
            in Join (take last parts) '', '' @ '', and '' @ parts ! last))"

subsection \<open>Formatting integers\<close>

text \<open>The verb \<^verbatim>\<open>%d\<close> of \<^verbatim>\<open>fmt\<close>: a decimal numeral, with a minus sign when negative.\<close>

definition digit :: "nat \<Rightarrow> char" where
  "digit n = ''0123456789'' ! n"

fun dec :: "nat \<Rightarrow> string" where
  "dec n = (if n < 10 then [digit n] else dec (n div 10) @ [digit (n mod 10)])"

declare dec.simps [simp del]

definition fmt_d :: "int \<Rightarrow> string" where
  "fmt_d i = (if i < 0 then CHR ''-'' # dec (nat (- i)) else dec (nat i))"

definition apostrophe :: string where
  "apostrophe = [CHR 0x27]"

definition newline :: string where
  "newline = [CHR 0x0A]"

subsection \<open>findCopySites\<close>

text \<open>
  The description of parameter \<open>v\<close> at index \<open>i\<close>:
  \<^verbatim>\<open>fmt.Sprintf("%s at index %d", parameter, i)\<close>.
\<close>

definition paramDescr :: "var \<Rightarrow> nat \<Rightarrow> string" where
  "paramDescr v i =
     (let name = var_name v;
          parameter = (if name \<noteq> [] then ''parameter '' @ apostrophe @ name @ apostrophe
                       else ''parameter'')
      in parameter @ '' at index '' @ fmt_d (int i))"

text \<open>
  The description of result \<open>v\<close> at index \<open>i\<close>; \<open>tstr\<close> is the \<^verbatim>\<open>String()\<close> of
  \<^verbatim>\<open>go/types\<close> that \<^verbatim>\<open>%s\<close> calls on \<^verbatim>\<open>v.Type()\<close>.
\<close>

definition resultDescr :: "(gotype \<Rightarrow> string) \<Rightarrow> var \<Rightarrow> nat \<Rightarrow> string" where
  "resultDescr tstr v i =
     ''return value '' @ apostrophe @ tstr (var_type v) @ apostrophe @ '' at index '' @ fmt_d (int i)"

text \<open>The loop over \<^verbatim>\<open>params\<close>, from index \<open>i\<close> on; \<open>sb\<close> is \<^verbatim>\<open>shouldBe\<close> so far.\<close>

fun paramsLoop :: "(string \<rightharpoonup> bool) \<Rightarrow> nat \<Rightarrow> var list \<Rightarrow> string list \<Rightarrow> string list" where
  "paramsLoop wideStructs i [] sb = sb"
| "paramsLoop wideStructs i (v # vs) sb =
     paramsLoop wideStructs (i + 1) vs
       (if isWideStructTyped (var_type v) wideStructs then sb @ [paramDescr v i] else sb)"

text \<open>The loop over \<^verbatim>\<open>results\<close>.\<close>

fun resultsLoop ::
  "(gotype \<Rightarrow> string) \<Rightarrow> (string \<rightharpoonup> bool) \<Rightarrow> nat \<Rightarrow> var list \<Rightarrow> string list \<Rightarrow> string list" where
  "resultsLoop tstr wideStructs i [] sb = sb"
| "resultsLoop tstr wideStructs i (v # vs) sb =
     resultsLoop tstr wideStructs (i + 1) vs
       (if isWideStructTyped (var_type v) wideStructs then sb @ [resultDescr tstr v i] else sb)"

text \<open>The body of the loop over \<^verbatim>\<open>funcs\<close>, up to the test of \<^verbatim>\<open>len(shouldBe)\<close>.\<close>

definition funcShouldBe :: "(gotype \<Rightarrow> string) \<Rightarrow> (string \<rightharpoonup> bool) \<Rightarrow> signature \<Rightarrow> string list" where
  "funcShouldBe tstr wideStructs s =
     (let sb0 = [];
          sb1 = (case recv s of
                   None \<Rightarrow> sb0
                 | Some r \<Rightarrow>
                     if isWideStructTyped (var_type r) wideStructs then sb0 @ [''receiver'']
                     else sb0);
          sb2 = paramsLoop wideStructs 0 (params s) sb1
      in resultsLoop tstr wideStructs 0 (results s) sb2)"

fun funcsLoop ::
  "(gotype \<Rightarrow> string) \<Rightarrow> (string \<rightharpoonup> bool) \<Rightarrow> func list \<Rightarrow> copySite list \<Rightarrow> copySite list" where
  "funcsLoop tstr wideStructs [] sites = sites"
| "funcsLoop tstr wideStructs (f # fs) sites =
     (let sb = funcShouldBe tstr wideStructs (func_sig f)
      in funcsLoop tstr wideStructs fs
           (if length sb > 0 then sites @ [\<lparr>cs_fun = f, shouldBe = sb\<rparr>] else sites))"

definition findCopySites ::
  "(gotype \<Rightarrow> string) \<Rightarrow> func list \<Rightarrow> (string \<rightharpoonup> bool) \<Rightarrow> copySite list" where
  "findCopySites tstr funcs wideStructs = funcsLoop tstr wideStructs funcs []"

subsection \<open>checkPkg and check\<close>

datatype stat_result = StatOk | StatNotExist | StatError string

text \<open>
  The errors of the program: the usage message of \<^verbatim>\<open>main\<close>, the error of \<^verbatim>\<open>os.Stat\<close>
  that \<^verbatim>\<open>check\<close> returns as it is, an error of \<^verbatim>\<open>parseGoPkg\<close> or \<^verbatim>\<open>parsePkgDir\<close>, and
  \<^verbatim>\<open>"unable to type check package %#v: %s"\<close> with the package name and the type
  checker's error.
\<close>

datatype error =
    Usage
  | StatFailed string
  | ParseFailed string
  | TypeCheckFailed string string

record package =
  pkg_name :: string
  pkg_files :: "string list"

text \<open>
  What the program takes from outside: \<^verbatim>\<open>os.Stat\<close>; the results of \<^verbatim>\<open>parseGoPkg\<close> and
  \<^verbatim>\<open>parsePkgDir\<close>, which walk and parse the file system; \<^verbatim>\<open>conf.Check\<close>, which under
  the sizes \<open>wordSize\<close> and \<open>maxAlign\<close> fails or fills \<^verbatim>\<open>info.Defs\<close> (a Go map, here the
  list of its values in the order the loop meets them); \<^verbatim>\<open>sizes.Sizeof\<close> for the same
  sizes; the \<^verbatim>\<open>String()\<close> of a type; and \<^verbatim>\<open>sort.Sort\<close>, given the \<^verbatim>\<open>Less\<close> of the data.
\<close>

record world =
  os_Stat :: "string \<Rightarrow> stat_result"
  parseGoPkg :: "string \<Rightarrow> error + package list"
  parsePkgDir :: "string \<Rightarrow> error + package"
  conf_Check :: "int \<Rightarrow> int \<Rightarrow> package \<Rightarrow> string + object list"
  Sizeof :: "int \<Rightarrow> int \<Rightarrow> gotype \<Rightarrow> int"
  TypeString :: "gotype \<Rightarrow> string"
  sort_Sort :: "(copySite \<Rightarrow> copySite \<Rightarrow> bool) \<Rightarrow> copySite list \<Rightarrow> copySite list"

text \<open>
  The loop over \<^verbatim>\<open>info.Defs\<close>: \<open>sizeof\<close> is \<^verbatim>\<open>sizes.Sizeof\<close>, and the state is
  \<^verbatim>\<open>wideStructs\<close> and \<^verbatim>\<open>funcs\<close>. Sizes are \<^verbatim>\<open>int64\<close> in Go; the loop only compares them.
\<close>

fun defsLoop ::
  "(gotype \<Rightarrow> int) \<Rightarrow> int \<Rightarrow> object list \<Rightarrow> (string \<rightharpoonup> bool) \<Rightarrow> func list
   \<Rightarrow> (string \<rightharpoonup> bool) \<times> func list" where
  "defsLoop sizeof maxWidth [] wideStructs funcs = (wideStructs, funcs)"
| "defsLoop sizeof maxWidth (TypeName i t # objs) wideStructs funcs =
     defsLoop sizeof maxWidth objs
       (if sizeof t > maxWidth then wideStructs(i \<mapsto> True) else wideStructs) funcs"
| "defsLoop sizeof maxWidth (Func f # objs) wideStructs funcs =
     defsLoop sizeof maxWidth objs wideStructs (funcs @ [f])"
| "defsLoop sizeof maxWidth (OtherObject # objs) wideStructs funcs =
     defsLoop sizeof maxWidth objs wideStructs funcs"

definition checkPkg :: "world \<Rightarrow> package \<Rightarrow> int \<Rightarrow> int \<Rightarrow> int \<Rightarrow> error + copySite list" where
  "checkPkg w pkg maxWidth wordSize maxAlign =
     (case conf_Check w wordSize maxAlign pkg of
        Inl err \<Rightarrow> Inl (TypeCheckFailed (pkg_name pkg) err)
      | Inr defs \<Rightarrow>
          (case defsLoop (Sizeof w wordSize maxAlign) maxWidth defs Map.empty [] of
             (wideStructs, funcs) \<Rightarrow> Inr (findCopySites (TypeString w) funcs wideStructs)))"

text \<open>The loop of \<^verbatim>\<open>check\<close> over the packages of an import path.\<close>

fun checkPkgs ::
  "world \<Rightarrow> package list \<Rightarrow> int \<Rightarrow> int \<Rightarrow> int \<Rightarrow> copySite list \<Rightarrow> error + copySite list" where
  "checkPkgs w [] maxStructWidth wordSize maxAlign sites = Inr sites"
| "checkPkgs w (pkg # pkgs) maxStructWidth wordSize maxAlign sites =
     (case checkPkg w pkg maxStructWidth wordSize maxAlign of
        Inl err \<Rightarrow> Inl err
      | Inr s \<Rightarrow> checkPkgs w pkgs maxStructWidth wordSize maxAlign (sites @ s))"

definition check :: "world \<Rightarrow> string \<Rightarrow> int \<Rightarrow> int \<Rightarrow> int \<Rightarrow> error + copySite list" where
  "check w p maxStructWidth wordSize maxAlign =
     (case os_Stat w p of
        StatNotExist \<Rightarrow>
          (case parseGoPkg w p of
             Inl err \<Rightarrow> Inl err
           | Inr pkgs \<Rightarrow> checkPkgs w pkgs maxStructWidth wordSize maxAlign [])
      | StatOk \<Rightarrow>
          (case parsePkgDir w p of
             Inl err \<Rightarrow> Inl err
           | Inr pkg \<Rightarrow>
               (case checkPkg w pkg maxStructWidth wordSize maxAlign of
                  Inl err \<Rightarrow> Inl err
                | Inr sites \<Rightarrow> Inr sites))
      | StatError err \<Rightarrow> Inl (StatFailed err))"

subsection \<open>printSites\<close>

text \<open>
  \<^verbatim>\<open>sortedCopySites.Less\<close>, on the two sites rather than on their indices. Go compares
  strings byte by byte, as the order on \<open>string\<close> does here.
\<close>

definition Less :: "copySite \<Rightarrow> copySite \<Rightarrow> bool" where
  "Less si sj =
     (let left = func_pos (cs_fun si); right = func_pos (cs_fun sj)
      in if filename left \<noteq> filename right then filename left < filename right
         else if line left \<noteq> line right then line left < line right
         else column left < column right)"

text \<open>The body of the loop of \<^verbatim>\<open>printSites\<close>: the string that \<^verbatim>\<open>Fprintf\<close> writes.\<close>

definition siteLine :: "copySite \<Rightarrow> string" where
  "siteLine site =
     (let f = cs_fun site;
          sb = sentence (shouldBe site);
          msg = ''should be made into''
                @ (if length (shouldBe site) > 1 then '' pointers'' else '' a pointer'');
          pos = func_pos (cs_fun site)
      in file_name pos @ '':'' @ fmt_d (line pos) @ '':'' @ fmt_d (column pos) @ '': ''
         @ sb @ '' '' @ msg @ '' ('' @ func_string f @ '')'' @ newline)"

definition printSites :: "world \<Rightarrow> copySite list \<Rightarrow> string list" where
  "printSites w sites = map siteLine (sort_Sort w Less sites)"

subsection \<open>main\<close>

text \<open>
  The three flags as \<^verbatim>\<open>flag.Parse\<close> leaves them: \<open>None\<close> when the flag is not on the
  command line, so that the default of \<^verbatim>\<open>flag.Int64\<close> stands.
\<close>

record flags =
  flag_max :: "int option"
  flag_wordSize :: "int option"
  flag_maxAlign :: "int option"

definition maxStructWidth :: "flags \<Rightarrow> int" where
  "maxStructWidth fl = (case flag_max fl of None \<Rightarrow> 16 | Some v \<Rightarrow> v)"

definition wordSize :: "flags \<Rightarrow> int" where
  "wordSize fl = (case flag_wordSize fl of None \<Rightarrow> 8 | Some v \<Rightarrow> v)"

definition maxAlign :: "flags \<Rightarrow> int" where
  "maxAlign fl = (case flag_maxAlign fl of None \<Rightarrow> 8 | Some v \<Rightarrow> v)"

text \<open>
  A run of the program: the lines written to standard output, the errors logged by
  \<^verbatim>\<open>log.Fatal\<close>, and the exit status.
\<close>

record run =
  stdout :: "string list"
  logged :: "error list"
  exit_status :: int

definition main :: "world \<Rightarrow> flags \<Rightarrow> string list \<Rightarrow> run" where
  "main w fl args =
     (if length args \<noteq> 1 then \<lparr>stdout = [], logged = [Usage], exit_status = 1\<rparr>
      else (let p = args ! 0
            in case check w p (maxStructWidth fl) (wordSize fl) (maxAlign fl) of
                 Inl err \<Rightarrow> \<lparr>stdout = [], logged = [err], exit_status = 1\<rparr>
               | Inr sites \<Rightarrow>
                   \<lparr>stdout = printSites w sites, logged = [],
                    exit_status = (if length sites > 0 then 2 else 0)\<rparr>))"

section \<open>Notions used to state the properties\<close>

fun isNamed :: "gotype \<Rightarrow> bool" where
  "isNamed (Named i u) = True"
| "isNamed t = False"

fun isPointer :: "gotype \<Rightarrow> bool" where
  "isPointer (Pointer t) = True"
| "isPointer t = False"

text \<open>The types at the positions of a signature: receiver, parameters, results.\<close>

definition sigTypes :: "signature \<Rightarrow> gotype list" where
  "sigTypes s =
     (case recv s of None \<Rightarrow> [] | Some r \<Rightarrow> [var_type r])
     @ map var_type (params s) @ map var_type (results s)"

text \<open>
  The offending positions of a signature as the specification lists them: the receiver
  if it is wide, then the wide parameters in order, each with its index, then the wide
  results in order, each with its index.
\<close>

definition offending :: "(gotype \<Rightarrow> string) \<Rightarrow> (string \<rightharpoonup> bool) \<Rightarrow> signature \<Rightarrow> string list" where
  "offending tstr w s =
     (case recv s of
        None \<Rightarrow> []
      | Some r \<Rightarrow> if isWideStructTyped (var_type r) w then [''receiver''] else [])
     @ map (\<lambda>(i, v). paramDescr v i)
         (filter (\<lambda>(i, v). isWideStructTyped (var_type v) w) (enumerate 0 (params s)))
     @ map (\<lambda>(i, v). resultDescr tstr v i)
         (filter (\<lambda>(i, v). isWideStructTyped (var_type v) w) (enumerate 0 (results s)))"



text \<open>
  Ascending order of positions as the specification words it: by file name, then by
  line, then by column; \<open>posLess\<close> is the strict order.
\<close>

definition posLe :: "position \<Rightarrow> position \<Rightarrow> bool" where
  "posLe p q \<longleftrightarrow>
     filename p < filename q
     \<or> (filename p = filename q
         \<and> (line p < line q \<or> (line p = line q \<and> column p \<le> column q)))"


text \<open>
  \<^verbatim>\<open>sort.Sort\<close> belongs to the Go standard library. Its documentation promises that the
  data end up in ascending order as determined by \<^verbatim>\<open>Less\<close>, and says that the sort is
  not guaranteed to be stable; the elements are only moved by \<^verbatim>\<open>Swap\<close>, so that the
  result is a permutation. Two sorts by insertion that keep this promise: \<open>insertBy\<close> puts
  an element in front of the first element that is not less than it, so
  \<open>sortKeepingTies\<close>, which inserts from the right, keeps equal elements in their order,
  and \<open>sortReversingTies\<close>, which inserts from the left, reverses them.
\<close>

fun insertBy :: "('a \<Rightarrow> 'a \<Rightarrow> bool) \<Rightarrow> 'a \<Rightarrow> 'a list \<Rightarrow> 'a list" where
  "insertBy lt x [] = [x]"
| "insertBy lt x (y # ys) = (if lt y x then y # insertBy lt x ys else x # y # ys)"

definition sortKeepingTies :: "('a \<Rightarrow> 'a \<Rightarrow> bool) \<Rightarrow> 'a list \<Rightarrow> 'a list" where
  "sortKeepingTies lt xs = foldr (insertBy lt) xs []"

definition sortReversingTies :: "('a \<Rightarrow> 'a \<Rightarrow> bool) \<Rightarrow> 'a list \<Rightarrow> 'a list" where
  "sortReversingTies lt xs = fold (insertBy lt) xs []"

section \<open>The size model of the specification\<close>

text \<open>
  Modelled from the spec: the size model (section 4.1, "Size Model"). The program does
  not compute sizes itself: \<^verbatim>\<open>checkPkg\<close> calls \<^verbatim>\<open>sizes.Sizeof\<close> of \<^verbatim>\<open>types.StdSizes\<close>
  (package \<^verbatim>\<open>go/types\<close>), which is not among the sources. A type reference is a
  primitive with its intrinsic size and alignment, a primitive of a number of words, a
  reference (pointer) or a composite with its fields in order.

  The footprint of a composite: start at offset 0; for each field in order round the
  offset up to the alignment of the field and add the footprint of the field; at the end
  round up to the alignment of the composite, which is the largest alignment of its
  fields. Every alignment is capped at \<open>ma\<close>, the maximum alignment. A reference takes
  \<open>ws\<close> bytes, the word size, whatever it points to. A composite with no field has
  footprint 0 (and aligns to 1).
\<close>

text \<open>Modelled from the spec: the type references of the size model.\<close>

datatype typeRef =
    Primitive int int
  | Words int
  | Reference typeRef
  | Composite "typeRef list"

text \<open>Modelled from the spec: rounding an offset up to an alignment.\<close>

definition roundUp :: "int \<Rightarrow> int \<Rightarrow> int" where
  "roundUp offset a = ((offset + a - 1) div a) * a"

text \<open>
  Modelled from the spec: the alignment of a field, capped at the maximum alignment; for
  a composite, the largest alignment of its fields.
\<close>

fun alignmentOf :: "int \<Rightarrow> int \<Rightarrow> typeRef \<Rightarrow> int" where
  "alignmentOf ws ma (Primitive s a) = min a ma"
| "alignmentOf ws ma (Words n) = min ws ma"
| "alignmentOf ws ma (Reference t) = min ws ma"
| "alignmentOf ws ma (Composite fs) =
     min (fold (\<lambda>f m. max (alignmentOf ws ma f) m) fs 1) ma"

text \<open>Modelled from the spec: the footprint of a type reference.\<close>

fun footprint :: "int \<Rightarrow> int \<Rightarrow> typeRef \<Rightarrow> int" where
  "footprint ws ma (Primitive s a) = s"
| "footprint ws ma (Words n) = n * ws"
| "footprint ws ma (Reference t) = ws"
| "footprint ws ma (Composite fs) =
     (if fs = [] then 0
      else roundUp
             (fold (\<lambda>f offset. roundUp offset (alignmentOf ws ma f)
                                 + footprint ws ma f) fs 0)
             (alignmentOf ws ma (Composite fs)))"

section \<open>Example inputs\<close>

text \<open>
  \<^verbatim>\<open>type Big struct { a, b int64 }\<close> and \<^verbatim>\<open>type Bigger struct { a, b, c int64 }\<close>, of
  16 and 24 bytes.
\<close>

definition big :: gotype where
  "big = Named ''Big'' (Struct [Basic 8 8, Basic 8 8])"

definition bigger :: gotype where
  "bigger = Named ''Bigger'' (Struct [Basic 8 8, Basic 8 8, Basic 8 8])"

definition exampleSizeof :: "int \<Rightarrow> int \<Rightarrow> gotype \<Rightarrow> int" where
  "exampleSizeof ws ma t = (if t = big then 16 else if t = bigger then 24 else ws)"

definition exampleTypeString :: "gotype \<Rightarrow> string" where
  "exampleTypeString t = (case t of Named i u \<Rightarrow> i | _ \<Rightarrow> ''?'')"

text \<open>\<^verbatim>\<open>func (b Bigger) M(x Bigger, _ Bigger)\<close>\<close>

definition methodM :: func where
  "methodM =
     \<lparr>func_sig =
        \<lparr>recv = Some \<lparr>var_name = ''b'', var_type = bigger\<rparr>,
         params = [\<lparr>var_name = ''x'', var_type = bigger\<rparr>, \<lparr>var_name = [], var_type = bigger\<rparr>],
         results = []\<rparr>,
      func_pos = \<lparr>file_name = ''a.go'', filename = ''a.go'', line = 12, column = 1\<rparr>,
      func_string = ''func (Bigger).M(x Bigger, _ Bigger)''\<rparr>"

text \<open>\<^verbatim>\<open>func (b *Bigger) P(x *Bigger) *Bigger\<close>\<close>

definition byPointer :: func where
  "byPointer =
     \<lparr>func_sig =
        \<lparr>recv = Some \<lparr>var_name = ''b'', var_type = Pointer bigger\<rparr>,
         params = [\<lparr>var_name = ''x'', var_type = Pointer bigger\<rparr>],
         results = [\<lparr>var_name = [], var_type = Pointer bigger\<rparr>]\<rparr>,
      func_pos = \<lparr>file_name = ''a.go'', filename = ''a.go'', line = 20, column = 1\<rparr>,
      func_string = ''func (*Bigger).P(x *Bigger) *Bigger''\<rparr>"

text \<open>\<^verbatim>\<open>func A(s struct{ a, b, c int64 }, n int64, xs []Bigger) *Bigger\<close>\<close>

definition byAnonymous :: func where
  "byAnonymous =
     \<lparr>func_sig =
        \<lparr>recv = None,
         params = [\<lparr>var_name = ''s'', var_type = Struct [Basic 8 8, Basic 8 8, Basic 8 8]\<rparr>,
                   \<lparr>var_name = ''n'', var_type = Basic 8 8\<rparr>,
                   \<lparr>var_name = ''xs'', var_type = Slice bigger\<rparr>],
         results = [\<lparr>var_name = [], var_type = Pointer bigger\<rparr>]\<rparr>,
      func_pos = \<lparr>file_name = ''a.go'', filename = ''a.go'', line = 30, column = 1\<rparr>,
      func_string = ''func A(s struct{a, b, c int64}, n int64, xs []Bigger) *Bigger''\<rparr>"

text \<open>\<^verbatim>\<open>func F(x Big)\<close>\<close>

definition takesBig :: func where
  "takesBig =
     \<lparr>func_sig =
        \<lparr>recv = None, params = [\<lparr>var_name = ''x'', var_type = big\<rparr>], results = []\<rparr>,
      func_pos = \<lparr>file_name = ''a.go'', filename = ''a.go'', line = 5, column = 1\<rparr>,
      func_string = ''func F(x Big)''\<rparr>"

text \<open>The objects of a package with the two types and the three functions.\<close>

definition exampleDefs :: "object list" where
  "exampleDefs =
     [TypeName ''Big'' big, Func methodM, OtherObject, TypeName ''Bigger'' bigger,
      Func byPointer, Func takesBig]"

definition examplePkg :: package where
  "examplePkg = \<lparr>pkg_name = ''demo'', pkg_files = [''a.go'']\<rparr>"

text \<open>
  A world in which the directory \<open>demo\<close> holds that package, and one in which the type
  checker fails on it.
\<close>

definition exampleWorld :: world where
  "exampleWorld =
     \<lparr>os_Stat = (\<lambda>p. if p = ''demo'' then StatOk else StatNotExist),
      parseGoPkg = (\<lambda>p. Inl (ParseFailed ''unable to find packages'')),
      parsePkgDir = (\<lambda>p. Inr examplePkg),
      conf_Check = (\<lambda>ws ma pkg. Inr exampleDefs),
      Sizeof = exampleSizeof,
      TypeString = exampleTypeString,
      sort_Sort = sortKeepingTies\<rparr>"

definition brokenWorld :: world where
  "brokenWorld = exampleWorld\<lparr>conf_Check := (\<lambda>ws ma pkg. Inl ''a.go:3:9: undeclared name: y'')\<rparr>"

text \<open>The copy sites of \<open>M\<close> and \<open>F\<close> when \<open>Big\<close> and \<open>Bigger\<close> are wide.\<close>

definition siteM :: copySite where
  "siteM =
     \<lparr>cs_fun = methodM,
      shouldBe = [''receiver'', ''parameter '' @ apostrophe @ ''x'' @ apostrophe @ '' at index 0'',
                  ''parameter at index 1'']\<rparr>"

definition siteF :: copySite where
  "siteF =
     \<lparr>cs_fun = takesBig,
      shouldBe = [''parameter '' @ apostrophe @ ''x'' @ apostrophe @ '' at index 0'']\<rparr>"



definition defaultFlags :: flags where
  "defaultFlags = \<lparr>flag_max = None, flag_wordSize = None, flag_maxAlign = None\<rparr>"

section \<open>Properties\<close>

subsection \<open>The joined descriptions\<close>

text \<open>
  C2 (counterexample). The specification says that a list of two descriptions \<open>[A, B]\<close> is
  rendered as "A and B". \<^verbatim>\<open>sentence\<close> has no case for two elements: it joins all but
  the last with ", " and appends ", and " and the last, so the two descriptions
  "A" and "B" give "A, and B".
\<close>

theorem sentence_two_counterexample:
  "sentence [''A'', ''B''] = ''A, and B'' \<and> sentence [''A'', ''B''] \<noteq> ''A and B''"
  by (simp add: sentence_def)

text \<open>
  C2 (amended). One description is rendered bare, with no "and"; two descriptions
  \<open>[A, B]\<close> are rendered "A, and B"; three descriptions \<open>[A, B, C]\<close> are rendered
  "A, B, and C".
\<close>

theorem sentence_one_two_three:
  "sentence [a] = a
   \<and> sentence [a, b] = a @ '', and '' @ b
   \<and> sentence [a, b, c] = a @ '', '' @ b @ '', and '' @ c"
  by (simp add: sentence_def)

subsection \<open>Decimal numerals\<close>

lemma fmt_d_digits [simp]:
  "fmt_d 0 = ''0''" "fmt_d 1 = ''1''" "fmt_d 2 = ''2''" "fmt_d 5 = ''5''" "fmt_d 12 = ''12''"
  by (simp_all add: fmt_d_def dec.simps digit_def)

subsection \<open>The wide set\<close>







subsection \<open>The scan of the signatures\<close>

lemma paramsLoop_eq:
  "paramsLoop w i vs sb =
     sb @ map (\<lambda>(i, v). paramDescr v i)
            (filter (\<lambda>(i, v). isWideStructTyped (var_type v) w) (enumerate i vs))"
  by (induction vs arbitrary: i sb) simp_all

lemma resultsLoop_eq:
  "resultsLoop tstr w i vs sb =
     sb @ map (\<lambda>(i, v). resultDescr tstr v i)
            (filter (\<lambda>(i, v). isWideStructTyped (var_type v) w) (enumerate i vs))"
  by (induction vs arbitrary: i sb) simp_all

lemma funcShouldBe_offending: "funcShouldBe tstr w s = offending tstr w s"
  by (simp add: funcShouldBe_def offending_def paramsLoop_eq resultsLoop_eq split: option.split)

lemma funcsLoop_eq:
  "funcsLoop tstr w fs sites =
     sites @ map (\<lambda>f. \<lparr>cs_fun = f, shouldBe = offending tstr w (func_sig f)\<rparr>)
               (filter (\<lambda>f. offending tstr w (func_sig f) \<noteq> []) fs)"
  by (induction fs arbitrary: sites) (simp_all add: funcShouldBe_offending Let_def)




subsection \<open>Positions that are never flagged\<close>

lemma not_named_not_wide: "\<not> isNamed t \<Longrightarrow> \<not> isWideStructTyped t w"
  by (cases t) simp_all

lemma pointer_not_named: "isPointer t \<Longrightarrow> \<not> isNamed t"
  by (cases t) simp_all

lemma offending_Nil:
  assumes "list_all (\<lambda>t. \<not> isWideStructTyped t w) (sigTypes s)"
  shows "offending tstr w s = []"
proof -
  have r: "(case recv s of None \<Rightarrow> [] | Some r \<Rightarrow>
             if isWideStructTyped (var_type r) w then [''receiver''] else []) = []"
    using assms by (cases "recv s") (simp_all add: sigTypes_def)
  have p: "filter (\<lambda>(i, v). isWideStructTyped (var_type v) w) (enumerate n (params s)) = []" for n
    using assms by (auto simp: sigTypes_def filter_empty_conv list_all_iff in_set_enumerate_eq)
  have q: "filter (\<lambda>(i, v). isWideStructTyped (var_type v) w) (enumerate n (results s)) = []" for n
    using assms by (auto simp: sigTypes_def filter_empty_conv list_all_iff in_set_enumerate_eq)
  show ?thesis by (simp add: offending_def r p q)
qed

lemma findCopySites_Nil:
  assumes "list_all (\<lambda>f. list_all (\<lambda>t. \<not> isWideStructTyped t w) (sigTypes (func_sig f))) funcs"
  shows "findCopySites tstr funcs w = []"
  using assms
  by (simp add: findCopySites_def funcsLoop_eq filter_empty_conv list_all_iff offending_Nil)

text \<open>
  C5. A pointer to a type is never wide for \<^verbatim>\<open>isWideStructTyped\<close>, whatever the wide
  set holds; so functions whose receiver, parameters and results are all pointers give
  no copy site.
\<close>

theorem pointers_yield_no_site:
  assumes "list_all (\<lambda>f. list_all isPointer (sigTypes (func_sig f))) funcs"
  shows "(\<forall>t. isWideStructTyped (Pointer t) w = False) \<and> findCopySites tstr funcs w = []"
proof -
  have "list_all (\<lambda>f. list_all (\<lambda>t. \<not> isWideStructTyped t w) (sigTypes (func_sig f))) funcs"
    using assms by (auto simp: list_all_iff dest!: pointer_not_named not_named_not_wide)
  then show ?thesis by (simp add: findCopySites_Nil)
qed

text \<open>\<open>Bigger\<close> is wide, and a method that takes and returns it by pointer gives no site.\<close>

theorem pointers_yield_no_site_witness:
  "list_all (\<lambda>f. list_all isPointer (sigTypes (func_sig f))) [byPointer]
   \<and> lookup [''Bigger'' \<mapsto> True] ''Bigger''
   \<and> findCopySites exampleTypeString [byPointer] [''Bigger'' \<mapsto> True] = []"
proof -
  have h: "list_all (\<lambda>f. list_all isPointer (sigTypes (func_sig f))) [byPointer]"
    by (simp add: byPointer_def sigTypes_def)
  show ?thesis
    using h pointers_yield_no_site [OF h, of "[''Bigger'' \<mapsto> True]" exampleTypeString]
    by (simp add: lookup_def)
qed

text \<open>
  C10. Only a named type can be flagged: an anonymous struct, a primitive, a slice and a
  pointer are not wide for \<^verbatim>\<open>isWideStructTyped\<close>, whatever the wide set holds and
  whatever their size, and functions with no named type at any position give no copy
  site.
\<close>

theorem only_named_types_flagged:
  "isWideStructTyped (Struct fs) w = False
   \<and> isWideStructTyped (Basic s a) w = False
   \<and> isWideStructTyped (Slice t) w = False
   \<and> isWideStructTyped (Pointer t) w = False
   \<and> (\<not> isNamed t' \<longrightarrow> isWideStructTyped t' w = False)
   \<and> (list_all (\<lambda>f. list_all (\<lambda>t. \<not> isNamed t) (sigTypes (func_sig f))) funcs
        \<longrightarrow> findCopySites tstr funcs w = [])"
proof -
  have "findCopySites tstr funcs w = []"
    if "list_all (\<lambda>f. list_all (\<lambda>t. \<not> isNamed t) (sigTypes (func_sig f))) funcs"
  proof (rule findCopySites_Nil)
    show "list_all (\<lambda>f. list_all (\<lambda>t. \<not> isWideStructTyped t w) (sigTypes (func_sig f))) funcs"
      using that by (auto simp: list_all_iff dest!: not_named_not_wide)
  qed
  then show ?thesis by (simp add: not_named_not_wide)
qed

text \<open>
  A function that takes an anonymous struct of 24 bytes by value gives no copy site,
  although the named struct of the same layout is wide.
\<close>

theorem only_named_types_flagged_witness:
  "\<not> isNamed (Struct [Basic 8 8, Basic 8 8, Basic 8 8])
   \<and> isWideStructTyped (Struct [Basic 8 8, Basic 8 8, Basic 8 8]) [''Bigger'' \<mapsto> True] = False
   \<and> list_all (\<lambda>f. list_all (\<lambda>t. \<not> isNamed t) (sigTypes (func_sig f))) [byAnonymous]
   \<and> findCopySites exampleTypeString [byAnonymous] [''Bigger'' \<mapsto> True] = []"
proof -
  have h: "list_all (\<lambda>f. list_all (\<lambda>t. \<not> isNamed t) (sigTypes (func_sig f))) [byAnonymous]"
    by (simp add: byAnonymous_def sigTypes_def)
  show ?thesis
    using h only_named_types_flagged
      [of "[Basic 8 8, Basic 8 8, Basic 8 8]" "[''Bigger'' \<mapsto> True]" 0 0 "Basic 0 0"
          "Struct [Basic 8 8, Basic 8 8, Basic 8 8]" "[byAnonymous]" exampleTypeString]
    by simp
qed

subsection \<open>The order of the report\<close>


lemma not_Less_posLe: "\<not> Less b a \<longleftrightarrow> posLe (func_pos (cs_fun a)) (func_pos (cs_fun b))"
  by (auto simp: Less_def posLe_def Let_def)

lemma lex3_trans:
  fixes f1 f2 f3 :: "'a::linorder" and l1 l2 l3 c1 c2 c3 :: int
  assumes "f1 < f2 \<or> (f1 = f2 \<and> (l1 < l2 \<or> (l1 = l2 \<and> c1 \<le> c2)))"
      and "f2 < f3 \<or> (f2 = f3 \<and> (l2 < l3 \<or> (l2 = l3 \<and> c2 \<le> c3)))"
  shows "f1 < f3 \<or> (f1 = f3 \<and> (l1 < l3 \<or> (l1 = l3 \<and> c1 \<le> c3)))"
proof -
  consider (a) "f1 < f2" | (b) "f1 = f2" "l1 < l2" | (c) "f1 = f2" "l1 = l2" "c1 \<le> c2"
    using assms(1) by blast
  then show ?thesis
  proof cases
    case a
    from assms(2) have "f2 \<le> f3" by (rule disjE) simp_all
    with a have "f1 < f3" by (rule less_le_trans)
    then show ?thesis by simp
  next
    case b
    from assms(2) b show ?thesis by (elim disjE conjE) simp_all
  next
    case c
    from assms(2) c show ?thesis by (elim disjE conjE) simp_all
  qed
qed

lemma posLe_trans: "posLe p q \<Longrightarrow> posLe q r \<Longrightarrow> posLe p r"
  unfolding posLe_def by (rule lex3_trans)

lemma Less_asym: "Less a b \<Longrightarrow> \<not> Less b a"
  by (auto simp: Less_def Let_def split: if_splits)

lemma mset_insertBy: "mset (insertBy lt x ys) = add_mset x (mset ys)"
  by (induction ys) simp_all

lemma set_insertBy: "set (insertBy lt x ys) = insert x (set ys)"
  by (induction ys) auto

lemma sorted_insertBy:
  "sorted_wrt (\<lambda>a b. \<not> Less b a) ys \<Longrightarrow> sorted_wrt (\<lambda>a b. \<not> Less b a) (insertBy Less x ys)"
proof (induction ys)
  case Nil
  then show ?case by simp
next
  case (Cons y ys)
  show ?case
  proof (cases "Less y x")
    case True
    with Cons show ?thesis by (auto simp: set_insertBy dest: Less_asym)
  next
    case False
    have "\<not> Less z x" if "z \<in> set ys" for z
    proof -
      have "\<not> Less z y" using Cons.prems that by simp
      with False show ?thesis using posLe_trans not_Less_posLe by blast
    qed
    with False Cons.prems show ?thesis by auto
  qed
qed

text \<open>Both sorts keep the promise of \<^verbatim>\<open>sort.Sort\<close> for \<^verbatim>\<open>Less\<close>, on every list.\<close>

lemma sortKeepingTies_contract:
  "mset (sortKeepingTies Less xs) = mset xs
   \<and> sorted_wrt (\<lambda>a b. \<not> Less b a) (sortKeepingTies Less xs)"
  unfolding sortKeepingTies_def by (induction xs) (simp_all add: mset_insertBy sorted_insertBy)

lemma fold_insertBy:
  "mset (fold (insertBy Less) xs acc) = mset xs + mset acc
   \<and> (sorted_wrt (\<lambda>a b. \<not> Less b a) acc
        \<longrightarrow> sorted_wrt (\<lambda>a b. \<not> Less b a) (fold (insertBy Less) xs acc))"
  by (induction xs arbitrary: acc) (simp_all add: mset_insertBy sorted_insertBy)

lemma sortReversingTies_contract:
  "mset (sortReversingTies Less xs) = mset xs
   \<and> sorted_wrt (\<lambda>a b. \<not> Less b a) (sortReversingTies Less xs)"
  unfolding sortReversingTies_def using fold_insertBy [of xs "[]"] by simp









subsection \<open>The lines of the report\<close>

text \<open>
  C7. \<^verbatim>\<open>sort.Sort\<close> permuting the sites, \<^verbatim>\<open>printSites\<close> writes exactly one line for each
  copy site, and the line is
  \<^verbatim>\<open><file>:<line>:<column>: <joined descriptions> should be made into <a pointer|pointers> (<function>)\<close>
  followed by a newline, with "pointers" if and only if the site has more than one
  description.
\<close>

theorem printSites_one_line_per_site:
  assumes "mset (sort_Sort w Less sites) = mset sites"
  shows "mset (printSites w sites) = image_mset siteLine (mset sites)
         \<and> length (printSites w sites) = length sites
         \<and> siteLine site =
             file_name (func_pos (cs_fun site)) @ '':'' @ fmt_d (line (func_pos (cs_fun site)))
             @ '':'' @ fmt_d (column (func_pos (cs_fun site))) @ '': ''
             @ sentence (shouldBe site) @ '' should be made into ''
             @ (if 1 < length (shouldBe site) then ''pointers'' else ''a pointer'')
             @ '' ('' @ func_string (cs_fun site) @ '')'' @ newline"
proof -
  have "mset (printSites w sites) = image_mset siteLine (mset (sort_Sort w Less sites))"
    by (simp add: printSites_def)
  then have m: "mset (printSites w sites) = image_mset siteLine (mset sites)"
    using assms by simp
  from m have "size (mset (printSites w sites)) = size (image_mset siteLine (mset sites))"
    by simp
  then have l: "length (printSites w sites) = length sites"
    by simp
  show ?thesis using m l by (simp add: siteLine_def Let_def)
qed

text \<open>A site with one description and a site with three, as they are printed.\<close>

theorem printSites_one_line_per_site_witness:
  "printSites exampleWorld [siteM, siteF] =
     [''a.go:5:1: parameter '' @ apostrophe @ ''x'' @ apostrophe
        @ '' at index 0 should be made into a pointer (func F(x Big))'' @ newline,
      ''a.go:12:1: receiver, parameter '' @ apostrophe @ ''x'' @ apostrophe
        @ '' at index 0, and parameter at index 1 should be made into pointers''
        @ '' (func (Bigger).M(x Bigger, _ Bigger))'' @ newline]"
proof -
  have lt: "Less siteF siteM" "\<not> Less siteM siteF"
    by (simp_all add: Less_def siteM_def siteF_def methodM_def takesBig_def)
  have s: "sort_Sort exampleWorld Less [siteM, siteF] = [siteF, siteM]"
    by (simp add: exampleWorld_def sortKeepingTies_def lt)
  have p: "mset (sort_Sort exampleWorld Less [siteM, siteF]) = mset [siteM, siteF]"
    by (simp add: s)
  have "printSites exampleWorld [siteM, siteF] = [siteLine siteF, siteLine siteM]"
    by (simp add: printSites_def s)
  then show ?thesis
    using printSites_one_line_per_site [OF p, of siteF]
      printSites_one_line_per_site [OF p, of siteM]
    by (simp add: siteM_def siteF_def methodM_def takesBig_def sentence_def)
qed


subsection \<open>Failure of the type check\<close>

lemma checkPkg_fails:
  "conf_Check w ws ma pkg = Inl err \<Longrightarrow>
     checkPkg w pkg mw ws ma = Inl (TypeCheckFailed (pkg_name pkg) err)"
  by (simp add: checkPkg_def)


lemma checkPkg_isl: "isl (checkPkg w pkg mw ws ma) = isl (conf_Check w ws ma pkg)"
  by (simp add: checkPkg_def split: sum.split prod.split)

lemma checkPkgs_fails:
  "list_all (\<lambda>pkg. \<not> isl (conf_Check w ws ma pkg)) good \<Longrightarrow>
   conf_Check w ws ma bad = Inl err \<Longrightarrow>
     checkPkgs w (good @ bad # rest) mw ws ma sites = Inl (TypeCheckFailed (pkg_name bad) err)"
proof (induction good arbitrary: sites)
  case Nil
  then show ?case by (simp add: checkPkg_fails)
next
  case (Cons g good)
  from Cons.prems have "\<not> isl (checkPkg w g mw ws ma)"
    by (simp add: checkPkg_isl)
  then obtain s where "checkPkg w g mw ws ma = Inr s"
    by (cases "checkPkg w g mw ws ma") simp_all
  with Cons show ?case by simp
qed

lemma main_fails:
  "check w p (maxStructWidth fl) (wordSize fl) (maxAlign fl) = Inl e \<Longrightarrow>
     main w fl [p] = \<lparr>stdout = [], logged = [e], exit_status = 1\<rparr>"
  by (simp add: main_def)

text \<open>
  C8. When the type check of a package fails, \<^verbatim>\<open>checkPkg\<close> returns an error that names
  the package and carries the type checker's error, and no copy site. \<^verbatim>\<open>check\<close>
  returns that error and no site, for a directory and for an import path (there also
  when packages before the failing one were checked with success). \<^verbatim>\<open>main\<close> then logs
  that single error, writes no line to standard output and exits with status 1.
\<close>

theorem type_check_failure_aborts:
  "(conf_Check w ws ma pkg = Inl err \<longrightarrow>
      checkPkg w pkg mw ws ma = Inl (TypeCheckFailed (pkg_name pkg) err))
   \<and> (os_Stat w p = StatOk \<and> parsePkgDir w p = Inr pkg \<and> conf_Check w ws ma pkg = Inl err \<longrightarrow>
        check w p mw ws ma = Inl (TypeCheckFailed (pkg_name pkg) err))
   \<and> (os_Stat w p = StatNotExist \<and> parseGoPkg w p = Inr (good @ pkg # rest)
        \<and> list_all (\<lambda>g. \<not> isl (conf_Check w ws ma g)) good \<and> conf_Check w ws ma pkg = Inl err \<longrightarrow>
        check w p mw ws ma = Inl (TypeCheckFailed (pkg_name pkg) err))
   \<and> (check w p (maxStructWidth fl) (wordSize fl) (maxAlign fl) = Inl e \<longrightarrow>
        main w fl [p] = \<lparr>stdout = [], logged = [e], exit_status = 1\<rparr>)"
proof (intro conjI impI)
  show "checkPkg w pkg mw ws ma = Inl (TypeCheckFailed (pkg_name pkg) err)"
    if "conf_Check w ws ma pkg = Inl err"
    using that by (rule checkPkg_fails)
  show "check w p mw ws ma = Inl (TypeCheckFailed (pkg_name pkg) err)"
    if "os_Stat w p = StatOk \<and> parsePkgDir w p = Inr pkg \<and> conf_Check w ws ma pkg = Inl err"
    using that by (simp add: check_def checkPkg_fails)
  show "check w p mw ws ma = Inl (TypeCheckFailed (pkg_name pkg) err)"
    if "os_Stat w p = StatNotExist \<and> parseGoPkg w p = Inr (good @ pkg # rest)
        \<and> list_all (\<lambda>g. \<not> isl (conf_Check w ws ma g)) good \<and> conf_Check w ws ma pkg = Inl err"
    using that by (simp add: check_def checkPkgs_fails)
  show "main w fl [p] = \<lparr>stdout = [], logged = [e], exit_status = 1\<rparr>"
    if "check w p (maxStructWidth fl) (wordSize fl) (maxAlign fl) = Inl e"
    using that by (rule main_fails)
qed

text \<open>The world in which the type checker fails: one error, no line.\<close>

theorem type_check_failure_aborts_witness:
  "conf_Check brokenWorld 8 8 examplePkg = Inl ''a.go:3:9: undeclared name: y''
   \<and> checkPkg brokenWorld examplePkg 16 8 8
       = Inl (TypeCheckFailed ''demo'' ''a.go:3:9: undeclared name: y'')
   \<and> check brokenWorld ''demo'' 16 8 8
       = Inl (TypeCheckFailed ''demo'' ''a.go:3:9: undeclared name: y'')
   \<and> main brokenWorld defaultFlags [''demo'']
       = \<lparr>stdout = [], logged = [TypeCheckFailed ''demo'' ''a.go:3:9: undeclared name: y''],
          exit_status = 1\<rparr>"
proof -
  have c: "conf_Check brokenWorld 8 8 examplePkg = Inl ''a.go:3:9: undeclared name: y''"
    by (simp add: brokenWorld_def)
  have s: "os_Stat brokenWorld ''demo'' = StatOk" "parsePkgDir brokenWorld ''demo'' = Inr examplePkg"
    by (simp_all add: brokenWorld_def exampleWorld_def)
  have f: "maxStructWidth defaultFlags = 16" "wordSize defaultFlags = 8" "maxAlign defaultFlags = 8"
    by (simp_all add: defaultFlags_def maxStructWidth_def wordSize_def maxAlign_def)
  have n: "pkg_name examplePkg = ''demo''"
    by (simp add: examplePkg_def)
  show ?thesis
    using c s
      type_check_failure_aborts [of brokenWorld 8 8 examplePkg "''a.go:3:9: undeclared name: y''" 16
        "''demo''" "[]" "[]" defaultFlags "TypeCheckFailed ''demo'' ''a.go:3:9: undeclared name: y''"]
    by (simp add: f n)
qed

subsection \<open>The configuration\<close>




subsection \<open>Padding in the size model of the specification\<close>

text \<open>
  C9. In the size model of the specification, with word size 8 and maximum alignment 8,
  a composite with a field of size and alignment 1 followed by a field of size and
  alignment 8 has footprint 16 (1 byte, 7 bytes of padding, 8 bytes), not 9; and a
  composite with no field has footprint 0 for every word size and maximum alignment.
\<close>

theorem footprint_padding:
  "footprint 8 8 (Composite [Primitive 1 1, Primitive 8 8]) = 16
   \<and> footprint 8 8 (Composite [Primitive 1 1, Primitive 8 8]) \<noteq> 9
   \<and> footprint ws ma (Composite []) = 0"
  by (simp add: roundUp_def)

text \<open>A composite with no field under word size 4 and maximum alignment 2.\<close>

theorem footprint_padding_witness:
  "footprint 4 2 (Composite []) = 0 \<and> footprint 8 8 (Composite [Primitive 1 1, Primitive 8 8]) = 16"
  using footprint_padding [of 4 2] by simp

end
